theory Spec2Isabelle
  imports Complex_Main
begin

text \<open>
  A shallow embedding of the voice-synthesis session of the text-to-voice page: voice
  resolution and the settings applied to an utterance (page.tsx, audio-utils.ts), the
  generation flow with its bounded history (page.tsx), removal from the history
  (VoiceHistory.tsx) and the playback controller (AudioPlayer). State is passed
  explicitly; what the browser answers (the voices it has, the events of the utterance and
  of the audio element, object URLs, timestamps) is an argument of the step it belongs to.
\<close>

section \<open>JavaScript values used by the session manager\<close>

text \<open>
  Strings are lists of 8-bit code units (the Latin-1 range of a JavaScript string).
  \<open>trim\<close> removes the white space of that range from both ends, \<open>toLowerCase\<close>
  maps the upper-case letters of that range, \<open>str_includes\<close> is the substring test of
  \<open>String.prototype.includes\<close>.
\<close>

definition isWhiteSpace :: "char \<Rightarrow> bool" where
  "isWhiteSpace c = (of_char c \<in> set [9, 10, 11, 12, 13, 32, 160 :: nat])"

definition trim :: "string \<Rightarrow> string" where
  "trim s = rev (dropWhile isWhiteSpace (rev (dropWhile isWhiteSpace s)))"

definition lowerChar :: "char \<Rightarrow> char" where
  "lowerChar c =
     (let n = of_char c :: nat
      in if (65 \<le> n \<and> n \<le> 90) \<or> (192 \<le> n \<and> n \<le> 222 \<and> n \<noteq> 215)
         then char_of (n + 32) else c)"

definition toLowerCase :: "string \<Rightarrow> string" where
  "toLowerCase s = map lowerChar s"

fun startsWith :: "string \<Rightarrow> string \<Rightarrow> bool" where
  "startsWith s [] = True"
| "startsWith [] (c # cs) = False"
| "startsWith (x # xs) (c # cs) = (x = c \<and> startsWith xs cs)"

fun str_includes :: "string \<Rightarrow> string \<Rightarrow> bool" where
  "str_includes [] sub = (sub = [])"
| "str_includes (x # xs) sub = (startsWith (x # xs) sub \<or> str_includes xs sub)"

text \<open>
  A JavaScript \<open>number\<close>: a finite value, one of the two infinities, or NaN. The finite
  values are read as reals; the operations used here (comparison, \<open>Math.min\<close>,
  \<open>Math.max\<close>, truthiness) are exact on doubles, so nothing is rounded.
\<close>

datatype number = NaN | NegInfinity | Num real | Infinity

fun num_le :: "number \<Rightarrow> number \<Rightarrow> bool" where
  "num_le NaN y = False"
| "num_le x NaN = False"
| "num_le NegInfinity y = True"
| "num_le (Num a) NegInfinity = False"
| "num_le (Num a) (Num b) = (a \<le> b)"
| "num_le (Num a) Infinity = True"
| "num_le Infinity Infinity = True"
| "num_le Infinity y = False"

definition Math_min :: "number \<Rightarrow> number \<Rightarrow> number" where
  "Math_min a b = (if a = NaN \<or> b = NaN then NaN else if num_le a b then a else b)"

definition Math_max :: "number \<Rightarrow> number \<Rightarrow> number" where
  "Math_max a b = (if a = NaN \<or> b = NaN then NaN else if num_le a b then b else a)"

text \<open>Truthiness of a number, and \<open>x || d\<close> on numbers: 0 and NaN are falsy.\<close>

fun truthy :: "number \<Rightarrow> bool" where
  "truthy NaN = False"
| "truthy (Num r) = (r \<noteq> 0)"
| "truthy NegInfinity = True"
| "truthy Infinity = True"

definition or_default :: "number \<Rightarrow> number \<Rightarrow> number" where
  "or_default x d = (if truthy x then x else d)"

text \<open>An error object: \<open>new Error(message)\<close>, or the TypeError the runtime throws.\<close>

datatype js_error = Error string | TypeError string

text \<open>\<open>Date.now().toString()\<close>: the decimal digits of a timestamp.\<close>

fun toString :: "nat \<Rightarrow> string" where
  "toString n =
     (if n < 10 then [char_of (48 + n)]
      else toString (n div 10) @ [char_of (48 + n mod 10)])"

declare toString.simps [simp del]

section \<open>Data model (page.tsx)\<close>

record VoiceSettings =
  voice :: string
  speed :: number
  pitch :: number
  stability :: number
  clarity :: number

record GeneratedAudio =
  audio_id :: string
  audio_text :: string
  audio_voice :: string
  audioUrl :: string
  duration :: number
  createdAt :: nat
  settings :: VoiceSettings

record SpeechSynthesisVoice =
  name :: string

record SpeechSynthesisUtterance =
  utterance_text :: string
  utterance_voice :: "SpeechSynthesisVoice option"
  rate :: number
  utterance_pitch :: number
  utterance_volume :: number

section \<open>Voice resolution (generateBrowserVoice, page.tsx lines 64-98)\<close>

definition voiceMap :: "(string \<times> string list) list" where
  "voiceMap =
     [(''rachel'', [''female'', ''zira'', ''karen'', ''samantha'']),
      (''domi'', [''female'', ''hazel'', ''victoria'', ''allison'']),
      (''bella'', [''female'', ''eva'', ''fiona'', ''susan'']),
      (''antoni'', [''male'', ''david'', ''daniel'', ''alex'']),
      (''elli'', [''female'', ''mark'', ''kate'', ''veena'']),
      (''josh'', [''male'', ''tom'', ''fred'', ''josh'']),
      (''arnold'', [''male'', ''paul'', ''oliver'', ''ralph'']),
      (''adam'', [''male'', ''mark'', ''aaron'', ''bruce'']),
      (''sam'', [''male'', ''david'', ''sam'', ''junior''])]"

text \<open>
  \<open>voiceMap\<close> is an object literal, so \<open>voiceMap[key]\<close> also finds what the object
  inherits from \<open>Object.prototype\<close>: for these keys the lookup yields a function (or, for
  \<open>__proto__\<close>, the prototype object), which is truthy and is not an array.
\<close>

definition Object_prototype_keys :: "string list" where
  "Object_prototype_keys =
     [''constructor'', ''hasOwnProperty'', ''isPrototypeOf'', ''propertyIsEnumerable'',
      ''toLocaleString'', ''toString'', ''valueOf'', ''__proto__'',
      ''__defineGetter__'', ''__defineSetter__'', ''__lookupGetter__'', ''__lookupSetter__'']"

datatype property_value = Fragments "string list" | NotAnArray

text \<open>\<open>voiceMap[settings.voice] || ['female']\<close>\<close>

definition preferredVoices :: "string \<Rightarrow> property_value" where
  "preferredVoices v =
     (case map_of voiceMap v of
        Some prefs \<Rightarrow> Fragments prefs
      | None \<Rightarrow> if v \<in> set Object_prototype_keys then NotAnArray else Fragments [''female''])"

definition matchesPreferred :: "string list \<Rightarrow> SpeechSynthesisVoice \<Rightarrow> bool" where
  "matchesPreferred prefs vc =
     list_ex (\<lambda>pref. str_includes (toLowerCase (name vc)) (toLowerCase pref)) prefs"

definition isFemale :: "string \<Rightarrow> bool" where
  "isFemale v = (v \<in> set [''rachel'', ''domi'', ''bella'', ''elli''])"

definition matchesGender :: "string \<Rightarrow> SpeechSynthesisVoice \<Rightarrow> bool" where
  "matchesGender v vc =
     (if isFemale v
      then str_includes (toLowerCase (name vc)) ''female'' \<or> str_includes (toLowerCase (name vc)) ''woman''
      else str_includes (toLowerCase (name vc)) ''male'' \<or> str_includes (toLowerCase (name vc)) ''man'')"

text \<open>
  The voice the utterance gets: \<open>None\<close> when \<open>selectedVoice\<close> stays undefined. The
  callback of the first \<open>find\<close> calls \<open>preferredVoices.some\<close>, which throws a TypeError
  when \<open>preferredVoices\<close> is not an array; \<open>find\<close> calls it only on a non-empty list.
\<close>

definition selectVoice :: "string \<Rightarrow> SpeechSynthesisVoice list \<Rightarrow> js_error + SpeechSynthesisVoice option" where
  "selectVoice v voices =
     (case preferredVoices v of
        NotAnArray \<Rightarrow>
          (if voices = [] then Inr None
           else Inl (TypeError ''preferredVoices.some is not a function''))
      | Fragments prefs \<Rightarrow>
          (case find (matchesPreferred prefs) voices of
             Some selected \<Rightarrow> Inr (Some selected)
           | None \<Rightarrow>
               (case find (matchesGender v) voices of
                  Some selected \<Rightarrow> Inr (Some selected)
                | None \<Rightarrow>
                    (case voices of
                       [] \<Rightarrow> Inr None
                     | first # rest \<Rightarrow> Inr (Some first)))))"

section \<open>Settings applied to the utterance and to a voice request\<close>

text \<open>page.tsx lines 105-107.\<close>

definition utteranceRate :: "VoiceSettings \<Rightarrow> number" where
  "utteranceRate st = Math_max (Num 0.5) (Math_min (Num 2.0) (or_default (speed st) (Num 1.0)))"

definition utterancePitch :: "VoiceSettings \<Rightarrow> number" where
  "utterancePitch st = Math_max (Num 0.5) (Math_min (Num 2.0) (or_default (pitch st) (Num 1.0)))"

text \<open>
  audio-utils.ts, buildVoiceRequest (lines 214-233): its settings have optional fields
  (\<open>None\<close> is undefined). The request's \<open>text\<close> (cleanTextForTTS) and its constant
  fields other than \<open>style\<close> and \<open>use_speaker_boost\<close> are left out.
\<close>

record RequestSettings =
  req_voice :: "string option"
  req_speed :: "number option"
  req_pitch :: "number option"
  req_stability :: "number option"
  req_clarity :: "number option"

record voice_settings =
  vs_stability :: number
  similarity_boost :: number
  style :: number
  use_speaker_boost :: bool

record VoiceRequest =
  request_voice :: string
  request_voice_settings :: voice_settings

definition opt_or_default :: "number option \<Rightarrow> number \<Rightarrow> number" where
  "opt_or_default x d = (case x of None \<Rightarrow> d | Some n \<Rightarrow> or_default n d)"

definition buildVoiceRequest :: "RequestSettings \<Rightarrow> VoiceRequest" where
  "buildVoiceRequest st =
     \<lparr>request_voice =
        (case req_voice st of None \<Rightarrow> ''rachel'' | Some v \<Rightarrow> if v = [] then ''rachel'' else v),
      request_voice_settings =
        \<lparr>vs_stability = Math_max (Num 0) (Math_min (Num 1) (opt_or_default (req_stability st) (Num 0.75))),
         similarity_boost = Math_max (Num 0) (Math_min (Num 1) (opt_or_default (req_clarity st) (Num 0.75))),
         style = Num 0.0,
         use_speaker_boost = True\<rparr>\<rparr>"

section \<open>The speech engine request (generateBrowserVoice, page.tsx lines 51-146)\<close>

text \<open>
  What the page reads from the browser: whether \<open>speechSynthesis\<close> exists, and the
  voices \<open>getVoices()\<close> returns at the call.
\<close>

record host =
  speechSynthesisSupported :: bool
  getVoices :: "SpeechSynthesisVoice list"

text \<open>
  The synchronous part of the promise's executor: it rejects (\<open>Inl\<close>) when speech
  synthesis is missing or voice selection throws, and otherwise configures the utterance it
  hands to \<open>speechSynthesis.speak\<close>. The promise then settles on the utterance's
  \<open>onend\<close> or \<open>onerror\<close> event.
\<close>

definition generateBrowserVoice :: "host \<Rightarrow> string \<Rightarrow> VoiceSettings \<Rightarrow> js_error + SpeechSynthesisUtterance" where
  "generateBrowserVoice h txt st =
     (if \<not> speechSynthesisSupported h
      then Inl (Error ''Speech synthesis not supported in this browser'')
      else case selectVoice (voice st) (getVoices h) of
             Inl e \<Rightarrow> Inl e
           | Inr selectedVoice \<Rightarrow>
               Inr \<lparr>utterance_text = txt,
                    utterance_voice = selectedVoice,
                    rate = utteranceRate st,
                    utterance_pitch = utterancePitch st,
                    utterance_volume = Num 1.0\<rparr>)"

section \<open>The generation flow (generateVoice, page.tsx lines 148-197)\<close>

text \<open>
  \<open>generateVoice\<close> is an async function. Its frame, while it waits at an \<open>await\<close>, holds
  the \<open>text\<close> and \<open>voiceSettings\<close> it captured: at line 168 it waits for the speech
  engine, at line 173 (holding the object URL it created) for the audio element's
  \<open>loadedmetadata\<close> event.
\<close>

datatype suspended =
    AwaitSpeech string VoiceSettings
  | AwaitMetadata string VoiceSettings string

text \<open>
  The calls made to \<open>speechSynthesis\<close>. \<open>cancel\<close> is called at once and \<open>speak\<close> from
  a timer 100 ms later; both are recorded with the call that makes them.
\<close>

datatype engine_call = Cancel | Speak SpeechSynthesisUtterance

datatype promise = Pending | Fulfilled | Rejected js_error

text \<open>
  The page's React state (\<open>text_input\<close> is the state variable \<open>text\<close>), the interval
  timer of line 156, the suspended frame, and what the page has done to its environment:
  the object URLs created and not revoked, the calls made to \<open>speechSynthesis\<close>, the
  errors logged and the alerts shown.
\<close>

record page_state =
  text_input :: string
  isGenerating :: bool
  generationProgress :: real
  currentAudio :: "GeneratedAudio option"
  audioHistory :: "GeneratedAudio list"
  voiceSettings :: VoiceSettings
  progressInterval :: bool
  pending :: "suspended option"
  objectURLs :: "string list"
  engineCalls :: "engine_call list"
  consoleErrors :: "js_error list"
  alerts :: "string list"

definition default_settings :: VoiceSettings where
  "default_settings =
     \<lparr>voice = ''rachel'', speed = Num 1.0, pitch = Num 1.0,
      stability = Num 0.75, clarity = Num 0.75\<rparr>"

definition initial_state :: page_state where
  "initial_state =
     \<lparr>text_input = [],
      isGenerating = False,
      generationProgress = 0,
      currentAudio = None,
      audioHistory = [],
      voiceSettings = default_settings,
      progressInterval = False,
      pending = None,
      objectURLs = [],
      engineCalls = [],
      consoleErrors = [],
      alerts = []\<rparr>"

text \<open>The updater of the interval callback (lines 157-160); \<open>r\<close> is \<open>Math.random()\<close>.\<close>

definition progressUpdater :: "real \<Rightarrow> real \<Rightarrow> real" where
  "progressUpdater r prev = (if prev \<ge> 90 then prev else prev + r * 15)"

text \<open>The interval's callback runs only while the interval has not been cleared.\<close>

definition interval_callback :: "real \<Rightarrow> page_state \<Rightarrow> page_state" where
  "interval_callback r s =
     (if progressInterval s
      then s\<lparr>generationProgress := progressUpdater r (generationProgress s)\<rparr>
      else s)"

definition catch_block :: "js_error \<Rightarrow> page_state \<Rightarrow> page_state" where
  "catch_block e s =
     s\<lparr>consoleErrors := consoleErrors s @ [e],
       alerts := alerts s @ [''Failed to generate voice. Please try again.'']\<rparr>"

definition finally_block :: "page_state \<Rightarrow> page_state" where
  "finally_block s = s\<lparr>isGenerating := False, generationProgress := 0, pending := None\<rparr>"

text \<open>
  A call of \<open>generateVoice\<close>, up to the end of the event-loop turn that makes it. The guard of line
  149 returns at once: the promise is fulfilled and nothing has changed. Otherwise the
  flags are set, the interval is created and cleared, progress is set to 100 and
  \<open>generateBrowserVoice\<close> is called; when its executor rejects, \<open>catch\<close> and \<open>finally\<close>
  run in the same turn's microtasks, and otherwise the call is left suspended.
\<close>

definition generateVoice :: "host \<Rightarrow> page_state \<Rightarrow> promise \<times> page_state" where
  "generateVoice h s =
     (if trim (text_input s) = [] \<or> isGenerating s then (Fulfilled, s)
      else
        let s1 = s\<lparr>isGenerating := True, generationProgress := 0\<rparr>;
            s2 = s1\<lparr>progressInterval := True\<rparr>;
            s3 = s2\<lparr>progressInterval := False\<rparr>;
            s4 = s3\<lparr>generationProgress := 100\<rparr>
        in case generateBrowserVoice h (text_input s) (voiceSettings s) of
             Inl e \<Rightarrow> (Fulfilled, finally_block (catch_block e s4))
           | Inr u \<Rightarrow>
               (Pending,
                s4\<lparr>engineCalls := engineCalls s4 @ [Cancel, Speak u],
                   pending := Some (AwaitSpeech (text_input s) (voiceSettings s))\<rparr>))"

text \<open>
  \<open>generateVoice\<close> is a callback (\<open>useCallback\<close>, line 197): the \<open>text\<close>,
  \<open>voiceSettings\<close> and \<open>isGenerating\<close> it reads are those of the render that created
  it, and the page renders again only after the turn in which a state setter was called.
  \<open>generateVoice_rendered r h s\<close> is a call, in the state \<open>s\<close>, of the callback created by
  the render of the state \<open>r\<close>: the guard, the text and the settings come from \<open>r\<close>, the
  setters act on \<open>s\<close>. It returns the promise, the state at the end of the call's turn
  and the frame the call leaves suspended; the field \<open>pending\<close> of the state, which may
  hold the frame of another call, is not touched. \<open>generateVoice h s\<close> above is the call
  of the callback of the state's own render, with the suspended frame stored in
  \<open>pending\<close>.
\<close>

definition generateVoice_rendered ::
    "page_state \<Rightarrow> host \<Rightarrow> page_state \<Rightarrow> promise \<times> page_state \<times> suspended option" where
  "generateVoice_rendered r h s =
     (if trim (text_input r) = [] \<or> isGenerating r then (Fulfilled, s, None)
      else
        let s1 = s\<lparr>isGenerating := True, generationProgress := 0\<rparr>;
            s2 = s1\<lparr>progressInterval := True\<rparr>;
            s3 = s2\<lparr>progressInterval := False\<rparr>;
            s4 = s3\<lparr>generationProgress := 100\<rparr>
        in case generateBrowserVoice h (text_input r) (voiceSettings r) of
             Inl e \<Rightarrow>
               (Fulfilled, (catch_block e s4)\<lparr>isGenerating := False, generationProgress := 0\<rparr>, None)
           | Inr u \<Rightarrow>
               (Pending,
                s4\<lparr>engineCalls := engineCalls s4 @ [Cancel, Speak u]\<rparr>,
                Some (AwaitSpeech (text_input r) (voiceSettings r))))"

text \<open>
  The utterance's \<open>onerror\<close>: the promise rejects with the event's error code in the
  message, and \<open>catch\<close> and \<open>finally\<close> run.
\<close>

definition utterance_onerror :: "string \<Rightarrow> page_state \<Rightarrow> page_state" where
  "utterance_onerror code s =
     (case pending s of
        Some (AwaitSpeech txt vs) \<Rightarrow>
          finally_block (catch_block (Error (''Speech synthesis failed: '' @ code)) s)
      | _ \<Rightarrow> s)"

text \<open>
  The utterance's \<open>onend\<close>: the blob resolves the promise, \<open>URL.createObjectURL\<close>
  registers the URL it returns (\<open>url\<close>), and the call waits for the metadata.
\<close>

definition utterance_onend :: "string \<Rightarrow> page_state \<Rightarrow> page_state" where
  "utterance_onend url s =
     (case pending s of
        Some (AwaitSpeech txt vs) \<Rightarrow>
          s\<lparr>objectURLs := objectURLs s @ [url], pending := Some (AwaitMetadata txt vs url)\<rparr>
      | _ \<Rightarrow> s)"

text \<open>
  The audio element's \<open>loadedmetadata\<close> (lines 177-188, then \<open>finally\<close>): \<open>d\<close> is
  \<open>audio.duration\<close>, \<open>now\<close> is \<open>Date.now()\<close> and \<open>created\<close> is \<open>new Date()\<close>.
\<close>

definition newAudio :: "string \<Rightarrow> VoiceSettings \<Rightarrow> string \<Rightarrow> number \<Rightarrow> nat \<Rightarrow> nat \<Rightarrow> GeneratedAudio" where
  "newAudio txt vs url d now created =
     \<lparr>audio_id = toString now,
      audio_text = take 100 txt @ (if length txt > 100 then ''...'' else []),
      audio_voice = voice vs,
      audioUrl = url,
      duration = d,
      createdAt = created,
      settings = vs\<rparr>"

definition audio_loadedmetadata :: "number \<Rightarrow> nat \<Rightarrow> nat \<Rightarrow> page_state \<Rightarrow> page_state" where
  "audio_loadedmetadata d now created s =
     (case pending s of
        Some (AwaitMetadata txt vs url) \<Rightarrow>
          finally_block
            (s\<lparr>currentAudio := Some (newAudio txt vs url d now created),
               audioHistory := newAudio txt vs url d now created # take 9 (audioHistory s)\<rparr>)
      | _ \<Rightarrow> s)"

section \<open>Removal from the history (deleteFromHistory, VoiceHistory.tsx lines 63-72)\<close>

definition revokeObjectURL :: "string \<Rightarrow> string list \<Rightarrow> string list" where
  "revokeObjectURL url store = removeAll url store"

text \<open>
  The component reads the history as a prop and has no way to change it; the function
  returns nothing.
\<close>

definition deleteFromHistory :: "string \<Rightarrow> page_state \<Rightarrow> page_state" where
  "deleteFromHistory audioId s =
     (case find (\<lambda>a. audio_id a = audioId) (audioHistory s) of
        Some audio \<Rightarrow> s\<lparr>objectURLs := revokeObjectURL (audioUrl audio) (objectURLs s)\<rparr>
      | None \<Rightarrow> s)"

section \<open>The playback controller (AudioPlayer)\<close>

datatype audio_request =
    SetSrc string
  | SetVolume real
  | SetPlaybackRate real
  | Play
  | Pause
  | SetCurrentTime real

text \<open>
  The component's state, whether \<open>audioRef.current\<close> is set, and the requests made to
  the audio element so far.
\<close>

record player_state =
  isPlaying :: bool
  currentTime :: real
  volume :: real
  playbackRate :: real
  isLoading :: bool
  audioRef :: bool
  requests :: "audio_request list"




definition handleTimeUpdate :: "real \<Rightarrow> player_state \<Rightarrow> player_state" where
  "handleTimeUpdate t p = p\<lparr>currentTime := t\<rparr>"

definition handleEnded :: "player_state \<Rightarrow> player_state" where
  "handleEnded p = p\<lparr>isPlaying := False, currentTime := 0\<rparr>"

definition handlePlay :: "player_state \<Rightarrow> player_state" where
  "handlePlay p = p\<lparr>isPlaying := True\<rparr>"

definition handlePause :: "player_state \<Rightarrow> player_state" where
  "handlePause p = p\<lparr>isPlaying := False\<rparr>"


section \<open>Observations on a call, and example sessions\<close>

text \<open>A call fails when its promise is rejected with an error.\<close>

fun rejected :: "promise \<Rightarrow> bool" where
  "rejected (Rejected e) = True"
| "rejected Pending = False"
| "rejected Fulfilled = False"


definition example_host :: host where
  "example_host =
     \<lparr>speechSynthesisSupported = True,
      getVoices = [\<lparr>name = ''Microsoft Zira''\<rparr>, \<lparr>name = ''Google UK English Male''\<rparr>]\<rparr>"

definition typed_state :: page_state where
  "typed_state = initial_state\<lparr>text_input := ''Hello world''\<rparr>"

definition blank_state :: page_state where
  "blank_state = initial_state\<lparr>text_input := ''   ''\<rparr>"

definition inflight_state :: page_state where
  "inflight_state = snd (generateVoice example_host typed_state)"

text \<open>
  One successful generation: the call, the engine's \<open>onend\<close> and the audio element's
  \<open>loadedmetadata\<close>, at time \<open>n\<close> and with the object URL \<open>blob:n\<close>.
\<close>

definition generate_once :: "nat \<Rightarrow> page_state \<Rightarrow> page_state" where
  "generate_once n s =
     audio_loadedmetadata (Num 1) n n
       (utterance_onend (''blob:'' @ toString n) (snd (generateVoice example_host s)))"

text \<open>
  An idle session whose history is full: ten artifacts, the most recent first, each with
  its object URL registered.
\<close>

definition artifact :: "nat \<Rightarrow> GeneratedAudio" where
  "artifact n = newAudio ''Hello world'' default_settings (''blob:'' @ toString n) (Num 1) n n"

definition ten_state :: page_state where
  "ten_state =
     typed_state
       \<lparr>currentAudio := Some (artifact 10),
        audioHistory :=
          [artifact 10, artifact 9, artifact 8, artifact 7, artifact 6,
           artifact 5, artifact 4, artifact 3, artifact 2, artifact 1],
        objectURLs :=
          [audioUrl (artifact 1), audioUrl (artifact 2), audioUrl (artifact 3),
           audioUrl (artifact 4), audioUrl (artifact 5), audioUrl (artifact 6),
           audioUrl (artifact 7), audioUrl (artifact 8), audioUrl (artifact 9),
           audioUrl (artifact 10)]\<rparr>"

text \<open>Settings outside the sliders' ranges, a browser without speech synthesis.\<close>

definition fast_settings :: VoiceSettings where
  "fast_settings = default_settings\<lparr>speed := Num 5.0, pitch := Num 2.0\<rparr>"

definition fast_utterance :: SpeechSynthesisUtterance where
  "fast_utterance =
     \<lparr>utterance_text = ''Hi'', utterance_voice = Some \<lparr>name = ''Microsoft Zira''\<rparr>,
      rate = Num 2, utterance_pitch = Num 2, utterance_volume = Num 1\<rparr>"

definition silent_host :: host where
  "silent_host = \<lparr>speechSynthesisSupported = False, getVoices = []\<rparr>"

section \<open>Facts about the example sessions\<close>

lemma trim_hello: "trim ''Hello world'' = ''Hello world''"
  by code_simp

lemma trim_blank: "trim ''   '' = []"
  by code_simp

lemma selectVoice_rachel_example:
  "selectVoice ''rachel'' (getVoices example_host) = Inr (Some \<lparr>name = ''Microsoft Zira''\<rparr>)"
  by code_simp

lemma default_settings_simps:
  "voice default_settings = ''rachel''"
  "speed default_settings = Num 1"
  "pitch default_settings = Num 1"
  by (simp_all add: default_settings_def)

lemma generateBrowserVoice_example:
  "generateBrowserVoice example_host txt default_settings =
     Inr \<lparr>utterance_text = txt, utterance_voice = Some \<lparr>name = ''Microsoft Zira''\<rparr>,
          rate = Num 1, utterance_pitch = Num 1, utterance_volume = Num 1\<rparr>"
proof -
  have r: "utteranceRate default_settings = Num 1"
    by (simp add: default_settings_simps utteranceRate_def Math_max_def Math_min_def or_default_def)
  have p: "utterancePitch default_settings = Num 1"
    by (simp add: default_settings_simps utterancePitch_def Math_max_def Math_min_def or_default_def)
  have s: "speechSynthesisSupported example_host"
    by (simp add: example_host_def)
  show ?thesis
    by (simp add: generateBrowserVoice_def default_settings_simps r p s selectVoice_rachel_example)
qed

lemma typed_state_simps:
  "text_input typed_state = ''Hello world''"
  "voiceSettings typed_state = default_settings"
  "\<not> isGenerating typed_state"
  by (simp_all add: typed_state_def initial_state_def)

section \<open>The guard and the outcome of a call\<close>

lemma generateVoice_guard:
  "trim (text_input s) = [] \<or> isGenerating s \<Longrightarrow> generateVoice h s = (Fulfilled, s)"
  by (auto simp: generateVoice_def)

lemma generateVoice_started:
  assumes "trim (text_input s) \<noteq> []" "\<not> isGenerating s"
    and "generateBrowserVoice h (text_input s) (voiceSettings s) = Inr u"
  shows "generateVoice h s =
     (Pending,
      s\<lparr>isGenerating := True, generationProgress := 100, progressInterval := False,
        pending := Some (AwaitSpeech (text_input s) (voiceSettings s)),
        engineCalls := engineCalls s @ [Cancel, Speak u]\<rparr>)"
  using assms by (simp add: generateVoice_def)

lemma generateVoice_failed:
  assumes "trim (text_input s) \<noteq> []" "\<not> isGenerating s"
    and "generateBrowserVoice h (text_input s) (voiceSettings s) = Inl e"
  shows "generateVoice h s =
     (Fulfilled,
      s\<lparr>isGenerating := False, generationProgress := 0, progressInterval := False,
        pending := None,
        consoleErrors := consoleErrors s @ [e],
        alerts := alerts s @ [''Failed to generate voice. Please try again.'']\<rparr>)"
  using assms by (simp add: generateVoice_def catch_block_def finally_block_def)

lemma inflight_state_eq:
  "inflight_state =
     typed_state\<lparr>isGenerating := True, generationProgress := 100, progressInterval := False,
        pending := Some (AwaitSpeech ''Hello world'' default_settings),
        engineCalls := [Cancel, Speak \<lparr>utterance_text = ''Hello world'',
           utterance_voice = Some \<lparr>name = ''Microsoft Zira''\<rparr>,
           rate = Num 1, utterance_pitch = Num 1, utterance_volume = Num 1\<rparr>]\<rparr>"
proof -
  have "generateBrowserVoice example_host (text_input typed_state) (voiceSettings typed_state) =
     Inr \<lparr>utterance_text = ''Hello world'', utterance_voice = Some \<lparr>name = ''Microsoft Zira''\<rparr>,
          rate = Num 1, utterance_pitch = Num 1, utterance_volume = Num 1\<rparr>"
    by (simp add: typed_state_simps generateBrowserVoice_example)
  from generateVoice_started [OF _ _ this] show ?thesis
    by (simp add: inflight_state_def typed_state_simps trim_hello)
       (simp add: typed_state_def initial_state_def)
qed

lemma inflight_state_simps:
  "isGenerating inflight_state"
  "pending inflight_state = Some (AwaitSpeech ''Hello world'' default_settings)"
  "text_input inflight_state = ''Hello world''"
  "generationProgress inflight_state = 100"
  "\<not> progressInterval inflight_state"
  "audioHistory inflight_state = []"
  "currentAudio inflight_state = None"
  "objectURLs inflight_state = []"
  by (simp_all add: inflight_state_eq typed_state_def initial_state_def)

section \<open>Events that end a generation\<close>

lemma utterance_onerror_fields:
  assumes "pending s = Some (AwaitSpeech txt vs)"
  shows "utterance_onerror code s =
     s\<lparr>isGenerating := False, generationProgress := 0, pending := None,
       consoleErrors := consoleErrors s @ [Error (''Speech synthesis failed: '' @ code)],
       alerts := alerts s @ [''Failed to generate voice. Please try again.'']\<rparr>"
  using assms by (simp add: utterance_onerror_def catch_block_def finally_block_def)

lemma audio_loadedmetadata_fields:
  assumes "pending s = Some (AwaitMetadata txt vs url)"
  shows "audio_loadedmetadata d now created s =
     s\<lparr>isGenerating := False, generationProgress := 0, pending := None,
       currentAudio := Some (newAudio txt vs url d now created),
       audioHistory := newAudio txt vs url d now created # take 9 (audioHistory s)\<rparr>"
  using assms by (simp add: audio_loadedmetadata_def finally_block_def)

lemma audio_loadedmetadata_objectURLs:
  "objectURLs (audio_loadedmetadata d now created s) = objectURLs s"
  by (simp add: audio_loadedmetadata_def finally_block_def split: option.splits suspended.splits)

lemma audio_loadedmetadata_length:
  "length (audioHistory s) \<le> 10 \<Longrightarrow> length (audioHistory (audio_loadedmetadata d now created s)) \<le> 10"
  by (simp add: audio_loadedmetadata_def finally_block_def split: option.splits suspended.splits)

section \<open>Playback\<close>





section \<open>Blank text\<close>

lemma trim_whitespace_only:
  assumes "list_all isWhiteSpace t"
  shows "trim t = []"
proof -
  from assms have d: "dropWhile isWhiteSpace t = []"
    by (simp add: list_all_iff)
  show ?thesis
    unfolding trim_def d by simp
qed

text \<open>
  C3, as the code has it. For a text that is empty or consists of white space only, a
  call of \<open>generateVoice\<close> returns at once: its promise is fulfilled (no error is raised or
  reported), and the whole state is unchanged, so nothing was asked of the speech engine,
  no object URL or artifact was created, and the history and the selection are as before.
\<close>

theorem generateVoice_blank_text_ignored:
  "list_all isWhiteSpace (text_input s) \<longrightarrow>
     generateVoice h s = (Fulfilled, s) \<and>
     \<not> rejected (fst (generateVoice h s)) \<and>
     engineCalls (snd (generateVoice h s)) = engineCalls s \<and>
     audioHistory (snd (generateVoice h s)) = audioHistory s \<and>
     currentAudio (snd (generateVoice h s)) = currentAudio s \<and>
     objectURLs (snd (generateVoice h s)) = objectURLs s \<and>
     alerts (snd (generateVoice h s)) = alerts s"
proof
  assume "list_all isWhiteSpace (text_input s)"
  then have "trim (text_input s) = []"
    by (rule trim_whitespace_only)
  then have "generateVoice h s = (Fulfilled, s)"
    by (simp add: generateVoice_guard)
  then show "generateVoice h s = (Fulfilled, s) \<and>
     \<not> rejected (fst (generateVoice h s)) \<and>
     engineCalls (snd (generateVoice h s)) = engineCalls s \<and>
     audioHistory (snd (generateVoice h s)) = audioHistory s \<and>
     currentAudio (snd (generateVoice h s)) = currentAudio s \<and>
     objectURLs (snd (generateVoice h s)) = objectURLs s \<and>
     alerts (snd (generateVoice h s)) = alerts s"
    by simp
qed

lemma blank_state_whitespace: "list_all isWhiteSpace (text_input blank_state)"
  by (simp add: blank_state_def initial_state_def isWhiteSpace_def)

theorem generateVoice_blank_text_ignored_witness:
  "list_all isWhiteSpace (text_input blank_state) \<and>
   generateVoice example_host blank_state = (Fulfilled, blank_state)"
  using generateVoice_blank_text_ignored [of blank_state example_host] blank_state_whitespace
  by simp

text \<open>
  The claim as stated fails: on a text of three spaces the call does not fail with an
  error, its promise is fulfilled.
\<close>

theorem generateVoice_blank_text_no_error:
  "trim (text_input blank_state) = [] \<and> \<not> rejected (fst (generateVoice example_host blank_state))"
proof -
  have t: "trim (text_input blank_state) = []"
    by (simp add: blank_state_def initial_state_def trim_blank)
  then have "generateVoice example_host blank_state = (Fulfilled, blank_state)"
    by (simp add: generateVoice_guard)
  with t show ?thesis by simp
qed

section \<open>Single flight\<close>

text \<open>
  The call of the callback of the state's own render, when no other call is suspended.
\<close>

lemma generateVoice_current_render:
  "generateVoice h s =
     (case generateVoice_rendered s h s of
        (p, s', frame) \<Rightarrow>
          (p, if trim (text_input s) = [] \<or> isGenerating s then s' else s'\<lparr>pending := frame\<rparr>))"
  by (simp add: generateVoice_def generateVoice_rendered_def Let_def finally_block_def
      catch_block_def split: sum.splits)





lemma silent_host_fails:
  "generateBrowserVoice silent_host txt st =
     Inl (Error ''Speech synthesis not supported in this browser'')"
  by (simp add: generateBrowserVoice_def silent_host_def)




section \<open>Failed generations\<close>

text \<open>
  C6. No call of \<open>generateVoice\<close>, whichever render its callback comes from, changes the
  history, the selected audio or the registered object URLs in its own turn. A generation
  fails either inside the call (the browser has no speech synthesis, or voice selection
  throws) or later, by the utterance's error event after an accepted call. Either way the
  history, the selected audio and the registered object URLs are what they were before the
  attempt, no call is left suspended that could still build an artifact, and the failure
  is reported by an alert while \<open>isGenerating\<close> is reset.
\<close>

theorem failed_generation_keeps_history:
  "(trim (text_input s) \<noteq> [] \<and> \<not> isGenerating s \<and>
      generateBrowserVoice h (text_input s) (voiceSettings s) = Inl e \<longrightarrow>
      audioHistory (snd (generateVoice h s)) = audioHistory s \<and>
      currentAudio (snd (generateVoice h s)) = currentAudio s \<and>
      objectURLs (snd (generateVoice h s)) = objectURLs s \<and>
      pending (snd (generateVoice h s)) = None \<and>
      \<not> isGenerating (snd (generateVoice h s)) \<and>
      alerts (snd (generateVoice h s)) =
        alerts s @ [''Failed to generate voice. Please try again.'']) \<and>
   (pending s = Some (AwaitSpeech txt vs) \<longrightarrow>
      audioHistory (utterance_onerror code s) = audioHistory s \<and>
      currentAudio (utterance_onerror code s) = currentAudio s \<and>
      objectURLs (utterance_onerror code s) = objectURLs s \<and>
      pending (utterance_onerror code s) = None \<and>
      \<not> isGenerating (utterance_onerror code s) \<and>
      alerts (utterance_onerror code s) =
        alerts s @ [''Failed to generate voice. Please try again.'']) \<and>
   (trim (text_input s) \<noteq> [] \<and> \<not> isGenerating s \<and>
      generateBrowserVoice h (text_input s) (voiceSettings s) = Inr u \<longrightarrow>
      audioHistory (snd (generateVoice h s)) = audioHistory s \<and>
      currentAudio (snd (generateVoice h s)) = currentAudio s \<and>
      objectURLs (snd (generateVoice h s)) = objectURLs s \<and>
      alerts (snd (generateVoice h s)) = alerts s \<and>
      pending (snd (generateVoice h s)) = Some (AwaitSpeech (text_input s) (voiceSettings s)) \<and>
      audioHistory (utterance_onerror code (snd (generateVoice h s))) = audioHistory s \<and>
      currentAudio (utterance_onerror code (snd (generateVoice h s))) = currentAudio s \<and>
      objectURLs (utterance_onerror code (snd (generateVoice h s))) = objectURLs s \<and>
      pending (utterance_onerror code (snd (generateVoice h s))) = None \<and>
      \<not> isGenerating (utterance_onerror code (snd (generateVoice h s))) \<and>
      alerts (utterance_onerror code (snd (generateVoice h s))) =
        alerts s @ [''Failed to generate voice. Please try again.'']) \<and>
   audioHistory (snd (generateVoice h s)) = audioHistory s \<and>
   currentAudio (snd (generateVoice h s)) = currentAudio s \<and>
   objectURLs (snd (generateVoice h s)) = objectURLs s \<and>
   audioHistory (fst (snd (generateVoice_rendered r h s))) = audioHistory s \<and>
   currentAudio (fst (snd (generateVoice_rendered r h s))) = currentAudio s \<and>
   objectURLs (fst (snd (generateVoice_rendered r h s))) = objectURLs s"
proof (intro conjI impI)
  assume a: "trim (text_input s) \<noteq> [] \<and> \<not> isGenerating s \<and>
      generateBrowserVoice h (text_input s) (voiceSettings s) = Inl e"
  then have f: "generateVoice h s =
     (Fulfilled,
      s\<lparr>isGenerating := False, generationProgress := 0, progressInterval := False,
        pending := None,
        consoleErrors := consoleErrors s @ [e],
        alerts := alerts s @ [''Failed to generate voice. Please try again.'']\<rparr>)"
    by (simp add: generateVoice_failed)
  show "audioHistory (snd (generateVoice h s)) = audioHistory s"
    and "currentAudio (snd (generateVoice h s)) = currentAudio s"
    and "objectURLs (snd (generateVoice h s)) = objectURLs s"
    and "pending (snd (generateVoice h s)) = None"
    and "\<not> isGenerating (snd (generateVoice h s))"
    and "alerts (snd (generateVoice h s)) =
        alerts s @ [''Failed to generate voice. Please try again.'']"
    by (simp_all add: f)
next
  assume p: "pending s = Some (AwaitSpeech txt vs)"
  note f = utterance_onerror_fields [OF p, of code]
  show "audioHistory (utterance_onerror code s) = audioHistory s"
    and "currentAudio (utterance_onerror code s) = currentAudio s"
    and "objectURLs (utterance_onerror code s) = objectURLs s"
    and "pending (utterance_onerror code s) = None"
    and "\<not> isGenerating (utterance_onerror code s)"
    and "alerts (utterance_onerror code s) =
        alerts s @ [''Failed to generate voice. Please try again.'']"
    by (simp_all add: f)
next
  assume a: "trim (text_input s) \<noteq> [] \<and> \<not> isGenerating s \<and>
      generateBrowserVoice h (text_input s) (voiceSettings s) = Inr u"
  then have g: "generateVoice h s =
     (Pending,
      s\<lparr>isGenerating := True, generationProgress := 100, progressInterval := False,
        pending := Some (AwaitSpeech (text_input s) (voiceSettings s)),
        engineCalls := engineCalls s @ [Cancel, Speak u]\<rparr>)"
    by (simp add: generateVoice_started)
  show "audioHistory (snd (generateVoice h s)) = audioHistory s"
    and "currentAudio (snd (generateVoice h s)) = currentAudio s"
    and "objectURLs (snd (generateVoice h s)) = objectURLs s"
    and "alerts (snd (generateVoice h s)) = alerts s"
    and p: "pending (snd (generateVoice h s)) =
        Some (AwaitSpeech (text_input s) (voiceSettings s))"
    by (simp_all add: g)
  note f = utterance_onerror_fields [OF p, of code]
  show "audioHistory (utterance_onerror code (snd (generateVoice h s))) = audioHistory s"
    and "currentAudio (utterance_onerror code (snd (generateVoice h s))) = currentAudio s"
    and "objectURLs (utterance_onerror code (snd (generateVoice h s))) = objectURLs s"
    and "pending (utterance_onerror code (snd (generateVoice h s))) = None"
    and "\<not> isGenerating (utterance_onerror code (snd (generateVoice h s)))"
    and "alerts (utterance_onerror code (snd (generateVoice h s))) =
        alerts s @ [''Failed to generate voice. Please try again.'']"
    by (simp_all add: f) (simp_all add: g)
next
  show "audioHistory (snd (generateVoice h s)) = audioHistory s"
    and "currentAudio (snd (generateVoice h s)) = currentAudio s"
    and "objectURLs (snd (generateVoice h s)) = objectURLs s"
    by (simp_all add: generateVoice_def Let_def catch_block_def finally_block_def
        split: sum.splits)
  show "audioHistory (fst (snd (generateVoice_rendered r h s))) = audioHistory s"
    and "currentAudio (fst (snd (generateVoice_rendered r h s))) = currentAudio s"
    and "objectURLs (fst (snd (generateVoice_rendered r h s))) = objectURLs s"
    by (simp_all add: generateVoice_rendered_def Let_def catch_block_def split: sum.splits)
qed

lemma ten_state_simps:
  "text_input ten_state = ''Hello world''"
  "voiceSettings ten_state = default_settings"
  "\<not> isGenerating ten_state"
  "pending ten_state = None"
  "alerts ten_state = []"
  "currentAudio ten_state = Some (artifact 10)"
  by (simp_all add: ten_state_def typed_state_def initial_state_def)

lemma ten_state_inflight:
  "generateVoice example_host ten_state =
     (Pending,
      ten_state\<lparr>isGenerating := True, generationProgress := 100, progressInterval := False,
        pending := Some (AwaitSpeech ''Hello world'' default_settings),
        engineCalls := engineCalls ten_state @
          [Cancel, Speak \<lparr>utterance_text = ''Hello world'',
             utterance_voice = Some \<lparr>name = ''Microsoft Zira''\<rparr>,
             rate = Num 1, utterance_pitch = Num 1, utterance_volume = Num 1\<rparr>]\<rparr>)"
proof -
  have "generateBrowserVoice example_host (text_input ten_state) (voiceSettings ten_state) =
     Inr \<lparr>utterance_text = ''Hello world'', utterance_voice = Some \<lparr>name = ''Microsoft Zira''\<rparr>,
          rate = Num 1, utterance_pitch = Num 1, utterance_volume = Num 1\<rparr>"
    by (simp add: ten_state_simps generateBrowserVoice_example)
  from generateVoice_started [OF _ _ this] show ?thesis
    by (simp add: ten_state_simps trim_hello)
qed

theorem failed_generation_keeps_history_witness:
  "audioHistory (snd (generateVoice silent_host ten_state)) = audioHistory ten_state \<and>
   currentAudio (snd (generateVoice silent_host ten_state)) = Some (artifact 10) \<and>
   alerts (snd (generateVoice silent_host ten_state)) =
     [''Failed to generate voice. Please try again.''] \<and>
   pending (snd (generateVoice example_host ten_state)) =
     Some (AwaitSpeech ''Hello world'' default_settings) \<and>
   currentAudio (snd (generateVoice example_host ten_state)) = Some (artifact 10) \<and>
   audioHistory (utterance_onerror ''network'' (snd (generateVoice example_host ten_state))) =
     audioHistory ten_state \<and>
   currentAudio (utterance_onerror ''network'' (snd (generateVoice example_host ten_state))) =
     Some (artifact 10) \<and>
   objectURLs (utterance_onerror ''network'' (snd (generateVoice example_host ten_state))) =
     objectURLs ten_state \<and>
   alerts (utterance_onerror ''network'' (snd (generateVoice example_host ten_state))) =
     [''Failed to generate voice. Please try again.'']"
proof -
  have a: "trim (text_input ten_state) \<noteq> [] \<and> \<not> isGenerating ten_state \<and>
      generateBrowserVoice silent_host (text_input ten_state) (voiceSettings ten_state) =
        Inl (Error ''Speech synthesis not supported in this browser'')"
    by (simp add: ten_state_simps trim_hello silent_host_fails)
  have b: "trim (text_input ten_state) \<noteq> [] \<and> \<not> isGenerating ten_state \<and>
      generateBrowserVoice example_host (text_input ten_state) (voiceSettings ten_state) =
        Inr \<lparr>utterance_text = ''Hello world'',
             utterance_voice = Some \<lparr>name = ''Microsoft Zira''\<rparr>,
             rate = Num 1, utterance_pitch = Num 1, utterance_volume = Num 1\<rparr>"
    by (simp add: ten_state_simps trim_hello generateBrowserVoice_example)
  from failed_generation_keeps_history [of ten_state silent_host
      "Error ''Speech synthesis not supported in this browser''"] a
  have 1: "audioHistory (snd (generateVoice silent_host ten_state)) = audioHistory ten_state"
    and 2: "currentAudio (snd (generateVoice silent_host ten_state)) = Some (artifact 10)"
    and 3: "alerts (snd (generateVoice silent_host ten_state)) =
       [''Failed to generate voice. Please try again.'']"
    by (simp_all add: ten_state_simps)
  from failed_generation_keeps_history [of ten_state example_host _ _ _ "''network''"
      "\<lparr>utterance_text = ''Hello world'',
        utterance_voice = Some \<lparr>name = ''Microsoft Zira''\<rparr>,
        rate = Num 1, utterance_pitch = Num 1, utterance_volume = Num 1\<rparr>"] b
  have 4: "pending (snd (generateVoice example_host ten_state)) =
       Some (AwaitSpeech ''Hello world'' default_settings)"
    and 5: "currentAudio (snd (generateVoice example_host ten_state)) = Some (artifact 10)"
    and 6: "audioHistory (utterance_onerror ''network''
         (snd (generateVoice example_host ten_state))) = audioHistory ten_state"
    and 7: "currentAudio (utterance_onerror ''network''
         (snd (generateVoice example_host ten_state))) = Some (artifact 10)"
    and 8: "objectURLs (utterance_onerror ''network''
         (snd (generateVoice example_host ten_state))) = objectURLs ten_state"
    and 9: "alerts (utterance_onerror ''network''
         (snd (generateVoice example_host ten_state))) =
       [''Failed to generate voice. Please try again.'']"
    by (simp_all add: ten_state_simps)
  from 1 2 3 4 5 6 7 8 9 show ?thesis
    by simp
qed

section \<open>Clamping of the settings\<close>

lemma clamp_or_default_range:
  assumes "lo \<le> dflt" "dflt \<le> hi"
  shows "\<exists>r. Math_max (Num lo) (Math_min (Num hi) (or_default x (Num dflt))) = Num r \<and>
     lo \<le> r \<and> r \<le> hi"
  using assms by (cases x) (auto simp: Math_max_def Math_min_def or_default_def)

lemma clamp_or_default_truthy:
  assumes "x \<noteq> 0" "lo \<le> hi"
  shows "Math_max (Num lo) (Math_min (Num hi) (or_default (Num x) (Num dflt))) =
     Num (max lo (min hi x))"
  using assms by (auto simp: Math_max_def Math_min_def or_default_def)

lemma clamp_or_default_falsy:
  assumes "x = NaN \<or> x = Num 0" "lo \<le> dflt" "dflt \<le> hi"
  shows "Math_max (Num lo) (Math_min (Num hi) (or_default x (Num dflt))) = Num dflt"
  using assms by (auto simp: Math_max_def Math_min_def or_default_def)

lemma opt_or_default_as_or_default:
  "opt_or_default x d = or_default (case x of None \<Rightarrow> NaN | Some n \<Rightarrow> n) d"
  by (cases x) (simp_all add: opt_or_default_def or_default_def)

lemma clamp_opt_or_default_range:
  assumes "lo \<le> dflt" "dflt \<le> hi"
  shows "\<exists>r. Math_max (Num lo) (Math_min (Num hi) (opt_or_default x (Num dflt))) = Num r \<and>
     lo \<le> r \<and> r \<le> hi"
  unfolding opt_or_default_as_or_default using assms by (rule clamp_or_default_range)

lemma generateBrowserVoice_rate_pitch:
  "generateBrowserVoice h txt st = Inr u \<Longrightarrow>
     rate u = utteranceRate st \<and> utterance_pitch u = utterancePitch st"
  by (auto simp: generateBrowserVoice_def split: if_splits sum.splits)

text \<open>
  A setting that is 0 or NaN (or, in a voice request, missing) is not clamped: \<open>||\<close>
  replaces it by the default first.
\<close>

lemma falsy_settings_use_default:
  "speed st = NaN \<or> speed st = Num 0 \<Longrightarrow> utteranceRate st = Num 1"
  "pitch st = NaN \<or> pitch st = Num 0 \<Longrightarrow> utterancePitch st = Num 1"
  "req_stability rq \<in> {None, Some NaN, Some (Num 0)} \<Longrightarrow>
     vs_stability (request_voice_settings (buildVoiceRequest rq)) = Num (3 / 4)"
  "req_clarity rq \<in> {None, Some NaN, Some (Num 0)} \<Longrightarrow>
     similarity_boost (request_voice_settings (buildVoiceRequest rq)) = Num (3 / 4)"
  by (auto simp: utteranceRate_def utterancePitch_def buildVoiceRequest_def
      opt_or_default_def or_default_def Math_max_def Math_min_def)

text \<open>
  C4, as the code has it. The utterance handed to the speech engine has a rate in
  [0.5, 2.0] and a pitch in [0.5, 2.0] (not [0.5, 1.5]), whatever the settings hold, and
  a finite speed or pitch other than 0 is clamped to that range (speed 5.0 is used as
  2.0). The stability and the similarity boost (clarity) of a voice request lie in
  [0, 1], and a finite value other than 0 is clamped to that range.
\<close>

theorem settings_clamped_before_use:
  "(generateBrowserVoice h txt st = Inr u \<longrightarrow>
      (\<exists>r p. rate u = Num r \<and> 1 / 2 \<le> r \<and> r \<le> 2 \<and>
             utterance_pitch u = Num p \<and> 1 / 2 \<le> p \<and> p \<le> 2) \<and>
      (speed st = Num x \<and> x \<noteq> 0 \<longrightarrow> rate u = Num (max (1 / 2) (min 2 x))) \<and>
      (pitch st = Num x \<and> x \<noteq> 0 \<longrightarrow> utterance_pitch u = Num (max (1 / 2) (min 2 x)))) \<and>
   (\<exists>a b. vs_stability (request_voice_settings (buildVoiceRequest rq)) = Num a \<and>
          0 \<le> a \<and> a \<le> 1 \<and>
          similarity_boost (request_voice_settings (buildVoiceRequest rq)) = Num b \<and>
          0 \<le> b \<and> b \<le> 1) \<and>
   (req_stability rq = Some (Num x) \<and> x \<noteq> 0 \<longrightarrow>
      vs_stability (request_voice_settings (buildVoiceRequest rq)) = Num (max 0 (min 1 x))) \<and>
   (req_clarity rq = Some (Num x) \<and> x \<noteq> 0 \<longrightarrow>
      similarity_boost (request_voice_settings (buildVoiceRequest rq)) = Num (max 0 (min 1 x)))"
proof (intro conjI impI)
  assume g: "generateBrowserVoice h txt st = Inr u"
  note e = generateBrowserVoice_rate_pitch [OF g]
  obtain r where r: "utteranceRate st = Num r" "1 / 2 \<le> r" "r \<le> 2"
    using clamp_or_default_range [of "1 / 2" 1 2 "speed st"]
    by (auto simp: utteranceRate_def)
  obtain p where p: "utterancePitch st = Num p" "1 / 2 \<le> p" "p \<le> 2"
    using clamp_or_default_range [of "1 / 2" 1 2 "pitch st"]
    by (auto simp: utterancePitch_def)
  from r p e show "\<exists>r p. rate u = Num r \<and> 1 / 2 \<le> r \<and> r \<le> 2 \<and>
             utterance_pitch u = Num p \<and> 1 / 2 \<le> p \<and> p \<le> 2"
    by auto
next
  assume g: "generateBrowserVoice h txt st = Inr u" and a: "speed st = Num x \<and> x \<noteq> 0"
  show "rate u = Num (max (1 / 2) (min 2 x))"
    using clamp_or_default_truthy [of x "1 / 2" 2 1] a generateBrowserVoice_rate_pitch [OF g]
    by (simp add: utteranceRate_def)
next
  assume g: "generateBrowserVoice h txt st = Inr u" and a: "pitch st = Num x \<and> x \<noteq> 0"
  show "utterance_pitch u = Num (max (1 / 2) (min 2 x))"
    using clamp_or_default_truthy [of x "1 / 2" 2 1] a generateBrowserVoice_rate_pitch [OF g]
    by (simp add: utterancePitch_def)
next
  obtain a where a: "Math_max (Num 0) (Math_min (Num 1)
      (opt_or_default (req_stability rq) (Num (3 / 4)))) = Num a" "0 \<le> a" "a \<le> 1"
    using clamp_opt_or_default_range [of 0 "3 / 4" 1 "req_stability rq"] by auto
  obtain b where b: "Math_max (Num 0) (Math_min (Num 1)
      (opt_or_default (req_clarity rq) (Num (3 / 4)))) = Num b" "0 \<le> b" "b \<le> 1"
    using clamp_opt_or_default_range [of 0 "3 / 4" 1 "req_clarity rq"] by auto
  from a b show "\<exists>a b. vs_stability (request_voice_settings (buildVoiceRequest rq)) = Num a \<and>
          0 \<le> a \<and> a \<le> 1 \<and>
          similarity_boost (request_voice_settings (buildVoiceRequest rq)) = Num b \<and>
          0 \<le> b \<and> b \<le> 1"
    by (auto simp: buildVoiceRequest_def)
next
  assume a: "req_stability rq = Some (Num x) \<and> x \<noteq> 0"
  show "vs_stability (request_voice_settings (buildVoiceRequest rq)) = Num (max 0 (min 1 x))"
    using clamp_or_default_truthy [of x 0 1 "3 / 4"] a
    by (simp add: buildVoiceRequest_def opt_or_default_def)
next
  assume a: "req_clarity rq = Some (Num x) \<and> x \<noteq> 0"
  show "similarity_boost (request_voice_settings (buildVoiceRequest rq)) = Num (max 0 (min 1 x))"
    using clamp_or_default_truthy [of x 0 1 "3 / 4"] a
    by (simp add: buildVoiceRequest_def opt_or_default_def)
qed

lemma fast_settings_simps:
  "voice fast_settings = ''rachel''"
  "speed fast_settings = Num 5"
  "pitch fast_settings = Num 2"
  by (simp_all add: fast_settings_def default_settings_def)

lemma fast_settings_rate_pitch:
  "utteranceRate fast_settings = Num 2"
  "utterancePitch fast_settings = Num 2"
  by (simp_all add: utteranceRate_def utterancePitch_def fast_settings_simps
      Math_max_def Math_min_def or_default_def)

lemma generateBrowserVoice_fast:
  "generateBrowserVoice example_host ''Hi'' fast_settings = Inr fast_utterance"
proof -
  have s: "speechSynthesisSupported example_host"
    by (simp add: example_host_def)
  show ?thesis
    by (simp add: generateBrowserVoice_def s fast_settings_simps fast_settings_rate_pitch
        selectVoice_rachel_example fast_utterance_def)
qed

theorem settings_clamped_before_use_witness:
  "generateBrowserVoice example_host ''Hi'' fast_settings = Inr fast_utterance \<and>
   speed fast_settings = Num 5 \<and> rate fast_utterance = Num 2 \<and>
   req_stability \<lparr>req_voice = None, req_speed = None, req_pitch = None,
      req_stability = Some (Num 7), req_clarity = None\<rparr> = Some (Num 7) \<and>
   vs_stability (request_voice_settings (buildVoiceRequest
     \<lparr>req_voice = None, req_speed = None, req_pitch = None,
      req_stability = Some (Num 7), req_clarity = None\<rparr>)) = Num 1"
proof -
  note t = settings_clamped_before_use [of example_host "''Hi''" fast_settings fast_utterance 5
      "\<lparr>req_voice = None, req_speed = None, req_pitch = None,
        req_stability = Some (Num 7), req_clarity = None\<rparr>"]
  from t generateBrowserVoice_fast fast_settings_simps
  have 1: "rate fast_utterance = Num (max (1 / 2) (min 2 5))"
    by simp
  note t' = settings_clamped_before_use [of example_host "''Hi''" fast_settings fast_utterance 7
      "\<lparr>req_voice = None, req_speed = None, req_pitch = None,
        req_stability = Some (Num 7), req_clarity = None\<rparr>"]
  from t' have 2: "vs_stability (request_voice_settings (buildVoiceRequest
     \<lparr>req_voice = None, req_speed = None, req_pitch = None,
      req_stability = Some (Num 7), req_clarity = None\<rparr>)) = Num (max 0 (min 1 7))"
    by simp
  from 1 2 generateBrowserVoice_fast fast_settings_simps show ?thesis
    by simp
qed

text \<open>
  The claim as stated fails: a pitch of 2.0 reaches the utterance as 2.0, which is above
  1.5.
\<close>

theorem pitch_above_range_used:
  "pitch fast_settings = Num 2 \<and>
   generateBrowserVoice example_host ''Hi'' fast_settings = Inr fast_utterance \<and>
   utterance_pitch fast_utterance = Num 2 \<and> (3 / 2 :: real) < 2"
  by (simp add: fast_settings_simps generateBrowserVoice_fast) (simp add: fast_utterance_def)

section \<open>Removal from the history\<close>

lemma find_Some_member: "find P xs = Some x \<Longrightarrow> x \<in> set xs"
  by (auto simp: find_Some_iff)

text \<open>
  C7, as the code has it. \<open>deleteFromHistory\<close> revokes the object URL of the first
  artifact of the history with the given id and changes nothing else: the history keeps
  all its artifacts, the one with the revoked URL too. For an id that no artifact of the
  history has, it changes nothing at all. It returns no value.
\<close>

theorem deleteFromHistory_revokes_only:
  "audioHistory (deleteFromHistory i s) = audioHistory s \<and>
   (find (\<lambda>a. audio_id a = i) (audioHistory s) = Some a \<longrightarrow>
      deleteFromHistory i s = s\<lparr>objectURLs := revokeObjectURL (audioUrl a) (objectURLs s)\<rparr> \<and>
      audioUrl a \<notin> set (objectURLs (deleteFromHistory i s)) \<and>
      a \<in> set (audioHistory (deleteFromHistory i s))) \<and>
   (i \<notin> audio_id ` set (audioHistory s) \<longrightarrow> deleteFromHistory i s = s)"
proof (intro conjI impI)
  show h: "audioHistory (deleteFromHistory i s) = audioHistory s"
    by (simp add: deleteFromHistory_def split: option.splits)
  {
    assume f: "find (\<lambda>a. audio_id a = i) (audioHistory s) = Some a"
    then show d: "deleteFromHistory i s =
        s\<lparr>objectURLs := revokeObjectURL (audioUrl a) (objectURLs s)\<rparr>"
      by (simp add: deleteFromHistory_def)
    show "audioUrl a \<notin> set (objectURLs (deleteFromHistory i s))"
      by (simp add: d revokeObjectURL_def)
    from f show "a \<in> set (audioHistory (deleteFromHistory i s))"
      by (simp add: h find_Some_member)
  }
  assume "i \<notin> audio_id ` set (audioHistory s)"
  then have "find (\<lambda>a. audio_id a = i) (audioHistory s) = None"
    by (auto simp: find_None_iff)
  then show "deleteFromHistory i s = s"
    by (simp add: deleteFromHistory_def)
qed

lemma ten_state_find_first:
  "find (\<lambda>a. audio_id a = audio_id (artifact 10)) (audioHistory ten_state) = Some (artifact 10)"
  by (simp add: ten_state_def)

theorem deleteFromHistory_revokes_only_witness:
  "find (\<lambda>a. audio_id a = audio_id (artifact 10)) (audioHistory ten_state) = Some (artifact 10) \<and>
   audioHistory (deleteFromHistory (audio_id (artifact 10)) ten_state) = audioHistory ten_state \<and>
   audioUrl (artifact 10) \<notin> set (objectURLs (deleteFromHistory (audio_id (artifact 10)) ten_state)) \<and>
   audioUrl (artifact 10) \<in> set (objectURLs ten_state) \<and>
   ''1'' \<notin> audio_id ` set (audioHistory typed_state) \<and>
   deleteFromHistory ''1'' typed_state = typed_state"
proof -
  have e: "''1'' \<notin> audio_id ` set (audioHistory typed_state)"
    by (simp add: typed_state_def initial_state_def)
  have u: "audioUrl (artifact 10) \<in> set (objectURLs ten_state)"
    by (simp add: ten_state_def)
  note t = deleteFromHistory_revokes_only [of "audio_id (artifact 10)" ten_state "artifact 10"]
  from t have 1: "audioHistory (deleteFromHistory (audio_id (artifact 10)) ten_state) =
      audioHistory ten_state"
    by (rule conjunct1)
  from t ten_state_find_first
  have 2: "audioUrl (artifact 10) \<notin>
      set (objectURLs (deleteFromHistory (audio_id (artifact 10)) ten_state))"
    by blast
  from deleteFromHistory_revokes_only [of "''1''" typed_state] e
  have 3: "deleteFromHistory ''1'' typed_state = typed_state"
    by blast
  from 1 2 3 e u ten_state_find_first show ?thesis
    by simp
qed

text \<open>
  The claim as stated fails: after the removal of the most recent artifact of a full
  history, that artifact is still in the history.
\<close>

theorem deleteFromHistory_keeps_artifact:
  "artifact 10 \<in> set (audioHistory (deleteFromHistory (audio_id (artifact 10)) ten_state)) \<and>
   length (audioHistory (deleteFromHistory (audio_id (artifact 10)) ten_state)) = 10"
proof -
  have "audioHistory (deleteFromHistory (audio_id (artifact 10)) ten_state) =
      audioHistory ten_state"
    by (simp add: deleteFromHistory_def split: option.splits)
  then show ?thesis
    by (simp add: ten_state_def)
qed

section \<open>Voice resolution\<close>

lemma selectVoice_Fragments:
  assumes "preferredVoices v = Fragments prefs" "voices \<noteq> []"
  shows "\<exists>vc. selectVoice v voices = Inr (Some vc) \<and> vc \<in> set voices"
proof (cases "find (matchesPreferred prefs) voices")
  case (Some vc)
  with assms show ?thesis
    by (auto simp: selectVoice_def dest: find_Some_member)
next
  case None
  note first = None
  show ?thesis
  proof (cases "find (matchesGender v) voices")
    case (Some vc)
    with assms first show ?thesis
      by (auto simp: selectVoice_def dest: find_Some_member)
  next
    case None
    with assms first show ?thesis
      by (cases voices) (auto simp: selectVoice_def)
  qed
qed

text \<open>
  For a voice id that is not the name of a property inherited from \<open>Object.prototype\<close>,
  known to the map or not, voice resolution returns a voice of a non-empty list.
\<close>

lemma selectVoice_total:
  assumes "v \<notin> set Object_prototype_keys" "voices \<noteq> []"
  shows "\<exists>vc. selectVoice v voices = Inr (Some vc) \<and> vc \<in> set voices"
proof -
  have "\<exists>prefs. preferredVoices v = Fragments prefs"
    using assms(1) by (cases "map_of voiceMap v") (simp_all add: preferredVoices_def)
  then obtain prefs where "preferredVoices v = Fragments prefs" ..
  then show ?thesis
    using assms(2) by (rule selectVoice_Fragments)
qed

text \<open>The three stages, for an id the map does not have and the prototype does not name.\<close>

lemma toLowerCase_female: "toLowerCase ''female'' = ''female''"
  by code_simp

lemma unknown_not_female: "map_of voiceMap v = None \<Longrightarrow> \<not> isFemale v"
  by (auto simp: voiceMap_def isFemale_def split: if_splits)

lemma selectVoice_unknown:
  assumes "map_of voiceMap v = None" "v \<notin> set Object_prototype_keys"
  shows "selectVoice v voices =
     (case find (\<lambda>vc. str_includes (toLowerCase (name vc)) ''female'') voices of
        Some selected \<Rightarrow> Inr (Some selected)
      | None \<Rightarrow>
          (case find (\<lambda>vc. str_includes (toLowerCase (name vc)) ''male'' \<or>
                          str_includes (toLowerCase (name vc)) ''man'') voices of
             Some selected \<Rightarrow> Inr (Some selected)
           | None \<Rightarrow> (case voices of [] \<Rightarrow> Inr None | first # rest \<Rightarrow> Inr (Some first))))"
proof -
  have p: "preferredVoices v = Fragments [''female'']"
    using assms by (simp add: preferredVoices_def)
  have m: "matchesPreferred [''female''] = (\<lambda>vc. str_includes (toLowerCase (name vc)) ''female'')"
    by (simp add: matchesPreferred_def toLowerCase_female fun_eq_iff)
  have g: "matchesGender v = (\<lambda>vc. str_includes (toLowerCase (name vc)) ''male'' \<or>
                          str_includes (toLowerCase (name vc)) ''man'')"
    using unknown_not_female [OF assms(1)] by (simp add: matchesGender_def fun_eq_iff)
  have "selectVoice v voices =
     (case find (matchesPreferred [''female'']) voices of
        Some selected \<Rightarrow> Inr (Some selected)
      | None \<Rightarrow>
          (case find (matchesGender v) voices of
             Some selected \<Rightarrow> Inr (Some selected)
           | None \<Rightarrow> (case voices of [] \<Rightarrow> Inr None | first # rest \<Rightarrow> Inr (Some first))))"
    by (simp add: selectVoice_def p)
  then show ?thesis
    unfolding m g .
qed

text \<open>
  C5 at the input \<open>toString\<close>. The id is not a key of the map, yet the lookup finds the
  method every object inherits; the first \<open>find\<close> then throws a TypeError on a non-empty
  list of voices, the promise of \<open>generateBrowserVoice\<close> rejects and the generation
  fails with the alert.
\<close>

theorem selectVoice_inherited_key_throws:
  "map_of voiceMap ''toString'' = None \<and>
   selectVoice ''toString'' [\<lparr>name = ''Alice''\<rparr>] =
     Inl (TypeError ''preferredVoices.some is not a function'') \<and>
   generateBrowserVoice example_host ''Hello world'' (default_settings\<lparr>voice := ''toString''\<rparr>) =
     Inl (TypeError ''preferredVoices.some is not a function'')"
proof -
  have 1: "map_of voiceMap ''toString'' = None"
    by code_simp
  have 2: "selectVoice ''toString'' [\<lparr>name = ''Alice''\<rparr>] =
     Inl (TypeError ''preferredVoices.some is not a function'')"
    by code_simp
  have 3: "selectVoice ''toString'' (getVoices example_host) =
     Inl (TypeError ''preferredVoices.some is not a function'')"
    by code_simp
  have 4: "generateBrowserVoice example_host ''Hello world''
      (default_settings\<lparr>voice := ''toString''\<rparr>) =
     Inl (TypeError ''preferredVoices.some is not a function'')"
    by (simp add: generateBrowserVoice_def example_host_def 3 [unfolded example_host_def, simplified])
  from 1 2 4 show ?thesis
    by simp
qed

text \<open>
  C10 at the input \<open>zoe\<close>, an id the map does not have, with the voices Alice and
  Male Bob. The preference list is \<open>['female']\<close> and matches neither voice. The gender
  stage does not treat the id as female: it returns Male Bob, whose name contains neither
  \<open>female\<close> nor \<open>woman\<close> and who is not the first voice of the list.
\<close>

theorem selectVoice_unknown_id_matches_male:
  "map_of voiceMap ''zoe'' = None \<and>
   preferredVoices ''zoe'' = Fragments [''female''] \<and>
   \<not> isFemale ''zoe'' \<and>
   selectVoice ''zoe'' [\<lparr>name = ''Alice''\<rparr>, \<lparr>name = ''Male Bob''\<rparr>] =
     Inr (Some \<lparr>name = ''Male Bob''\<rparr>) \<and>
   \<not> str_includes (toLowerCase ''Male Bob'') ''female'' \<and>
   \<not> str_includes (toLowerCase ''Male Bob'') ''woman''"
  by code_simp

section \<open>The bounded history\<close>

text \<open>
  No operation makes the history longer than ten artifacts, and the events of a generation
  never revoke an object URL.
\<close>

lemma generateVoice_audioHistory:
  "audioHistory (snd (generateVoice h s)) = audioHistory s"
  by (simp add: generateVoice_def Let_def catch_block_def finally_block_def split: sum.splits)

lemma utterance_onend_audioHistory:
  "audioHistory (utterance_onend url s) = audioHistory s"
  by (simp add: utterance_onend_def split: option.splits suspended.splits)

lemma utterance_onerror_audioHistory:
  "audioHistory (utterance_onerror code s) = audioHistory s"
  by (simp add: utterance_onerror_def catch_block_def finally_block_def
      split: option.splits suspended.splits)

lemma history_length_invariant:
  assumes "length (audioHistory s) \<le> 10"
  shows "length (audioHistory (snd (generateVoice h s))) \<le> 10"
    and "length (audioHistory (utterance_onend url s)) \<le> 10"
    and "length (audioHistory (utterance_onerror code s)) \<le> 10"
    and "length (audioHistory (audio_loadedmetadata d now created s)) \<le> 10"
    and "length (audioHistory (deleteFromHistory i s)) \<le> 10"
    and "length (audioHistory (interval_callback r s)) \<le> 10"
  using assms
  by (simp_all add: generateVoice_audioHistory utterance_onend_audioHistory
      utterance_onerror_audioHistory audio_loadedmetadata_length
      deleteFromHistory_def interval_callback_def split: option.splits)

lemma generation_keeps_objectURLs:
  "set (objectURLs s) \<subseteq> set (objectURLs (snd (generateVoice h s)))"
  "set (objectURLs s) \<subseteq> set (objectURLs (utterance_onend url s))"
  "set (objectURLs s) \<subseteq> set (objectURLs (utterance_onerror code s))"
  "set (objectURLs s) \<subseteq> set (objectURLs (audio_loadedmetadata d now created s))"
  by (auto simp: generateVoice_def Let_def utterance_onend_def utterance_onerror_def
      audio_loadedmetadata_objectURLs catch_block_def finally_block_def
      split: sum.splits option.splits suspended.splits)

lemma generate_once_example:
  assumes "generateVoice example_host s =
     (Pending, s\<lparr>isGenerating := True, generationProgress := 100, progressInterval := False,
        pending := Some (AwaitSpeech txt st), engineCalls := calls\<rparr>)"
  shows "audioHistory (generate_once n s) =
       newAudio txt st (''blob:'' @ toString n) (Num 1) n n # take 9 (audioHistory s)"
    and "objectURLs (generate_once n s) = objectURLs s @ [''blob:'' @ toString n]"
    and "currentAudio (generate_once n s) =
       Some (newAudio txt st (''blob:'' @ toString n) (Num 1) n n)"
  by (simp_all add: generate_once_def assms utterance_onend_def audio_loadedmetadata_def
      finally_block_def)

text \<open>
  On a full history the append keeps the length: the new artifact is in front, the last
  (oldest) artifact is gone, and the others keep their order.
\<close>

lemma append_to_full_history:
  assumes "pending s = Some (AwaitMetadata txt st url)" "length (audioHistory s) = 10"
  shows "audioHistory (audio_loadedmetadata d now created s) =
       newAudio txt st url d now created # butlast (audioHistory s)"
    and "length (audioHistory (audio_loadedmetadata d now created s)) = 10"
  using assms by (simp_all add: audio_loadedmetadata_fields butlast_conv_take)

lemma artifact_createdAt: "createdAt (artifact n) = n"
  by (simp add: artifact_def newAudio_def)

lemma artifact_eq_iff: "artifact m = artifact n \<longleftrightarrow> m = n"
  using artifact_createdAt by metis

text \<open>
  C1 at a full history. The eleventh generation puts its artifact in front and drops the
  oldest one, so the history keeps ten artifacts, the most recent first. The object URL of
  the dropped artifact is still registered afterwards: nothing revoked it.
\<close>

theorem eviction_keeps_object_url:
  "length (audioHistory ten_state) = 10 \<and>
   last (audioHistory ten_state) = artifact 1 \<and>
   audioHistory (generate_once 11 ten_state) =
     [artifact 11, artifact 10, artifact 9, artifact 8, artifact 7,
      artifact 6, artifact 5, artifact 4, artifact 3, artifact 2] \<and>
   currentAudio (generate_once 11 ten_state) = Some (artifact 11) \<and>
   artifact 1 \<notin> set (audioHistory (generate_once 11 ten_state)) \<and>
   audioUrl (artifact 1) \<in> set (objectURLs (generate_once 11 ten_state))"
proof -
  note g = generate_once_example [OF ten_state_inflight, of 11]
  have h: "audioHistory (generate_once 11 ten_state) =
     [artifact 11, artifact 10, artifact 9, artifact 8, artifact 7,
      artifact 6, artifact 5, artifact 4, artifact 3, artifact 2]"
    by (simp add: g(1)) (simp add: ten_state_def artifact_def)
  have c: "currentAudio (generate_once 11 ten_state) = Some (artifact 11)"
    by (simp add: g(3) artifact_def)
  have u: "audioUrl (artifact 1) \<in> set (objectURLs (generate_once 11 ten_state))"
    by (simp add: g(2)) (simp add: ten_state_def)
  have n: "artifact 1 \<notin> set (audioHistory (generate_once 11 ten_state))"
    by (simp add: h artifact_eq_iff)
  have l: "length (audioHistory ten_state) = 10" "last (audioHistory ten_state) = artifact 1"
    by (simp_all add: ten_state_def)
  from h c u n l show ?thesis
    by simp
qed

section \<open>Progress\<close>

lemma generateVoice_pending_progress:
  assumes "fst (generateVoice h s) = Pending"
  shows "generationProgress (snd (generateVoice h s)) = 100"
    and "\<not> progressInterval (snd (generateVoice h s))"
    and "pending (snd (generateVoice h s)) = Some (AwaitSpeech (text_input s) (voiceSettings s))"
  using assms
  by (auto simp: generateVoice_def Let_def split: if_splits sum.splits)

text \<open>
  C8 at a first generation. When the call returns, the engine has only been asked to
  speak: the call is suspended waiting for it, the progress is already 100, and the
  interval is already cleared, so its callback changes nothing. The progress stays 100
  when the engine ends, and goes back to 0 when the generation completes. The updater
  itself, had it run from 89, would have gone past 100.
\<close>

theorem progress_full_before_engine_completes:
  "fst (generateVoice example_host typed_state) = Pending \<and>
   pending inflight_state = Some (AwaitSpeech ''Hello world'' default_settings) \<and>
   generationProgress inflight_state = 100 \<and>
   \<not> progressInterval inflight_state \<and>
   interval_callback (1 / 2) inflight_state = inflight_state \<and>
   generationProgress (utterance_onend ''blob:1'' inflight_state) = 100 \<and>
   generationProgress
     (audio_loadedmetadata (Num 1) 1 1 (utterance_onend ''blob:1'' inflight_state)) = 0 \<and>
   progressUpdater (9 / 10) 89 = 205 / 2"
proof -
  have g: "generateBrowserVoice example_host (text_input typed_state) (voiceSettings typed_state) =
     Inr \<lparr>utterance_text = ''Hello world'', utterance_voice = Some \<lparr>name = ''Microsoft Zira''\<rparr>,
          rate = Num 1, utterance_pitch = Num 1, utterance_volume = Num 1\<rparr>"
    by (simp add: typed_state_simps generateBrowserVoice_example)
  have 1: "fst (generateVoice example_host typed_state) = Pending"
    using generateVoice_started [OF _ _ g] by (simp add: typed_state_simps trim_hello)
  have 2: "interval_callback (1 / 2) inflight_state = inflight_state"
    by (simp add: interval_callback_def inflight_state_simps)
  have 3: "generationProgress (utterance_onend ''blob:1'' inflight_state) = 100"
    and 4: "generationProgress
       (audio_loadedmetadata (Num 1) 1 1 (utterance_onend ''blob:1'' inflight_state)) = 0"
    by (simp_all add: utterance_onend_def audio_loadedmetadata_def finally_block_def
        inflight_state_simps)
  have 5: "progressUpdater (9 / 10) 89 = 205 / 2"
    by (simp add: progressUpdater_def)
  from 1 2 3 4 5 show ?thesis
    by (simp add: inflight_state_simps)
qed

end
